theory Spec2Isabelle
  imports Main "HOL-Library.Word"
begin

section \<open>The embedding host of js.c\<close>

text \<open>
  The file js.c wires an embedded JavaScript engine (MQuickJS, used through mquickjs.h)
  to a UART console: seven host functions callable from script, a driver \<open>main\<close> that
  evaluates one embedded script, and a failing \<open>_sbrk\<close>. The engine and the UART driver
  are not part of js.c. The engine's operations that js.c calls are therefore parameters
  of the model (the record \<open>engine\<close>), each with the shape of its C signature; the UART
  is the stream of bytes written so far.
\<close>

subsection \<open>Tagged values\<close>

text \<open>
  The error classes of the engine; js.c names one of them, through
  \<^verbatim>\<open>JS_ThrowInternalError\<close>.
\<close>

datatype JSErrorClass =
  JS_CLASS_ERROR
| JS_CLASS_INTERNAL_ERROR
| JS_CLASS_RANGE_ERROR
| JS_CLASS_REFERENCE_ERROR
| JS_CLASS_SYNTAX_ERROR
| JS_CLASS_TYPE_ERROR

text \<open>
  Modelled from the spec: the type \<^verbatim>\<open>JSValue\<close> is declared in mquickjs.h, which is
  not among the sources. The spec's Tagged Value has at least the variants Undefined,
  Boolean, Number, String and Exception. js.c itself names \<^verbatim>\<open>JS_UNDEFINED\<close>, the
  result of \<^verbatim>\<open>JS_NewInt32\<close>, the exception tag tested by \<^verbatim>\<open>JS_IsException\<close>,
  and the script builds strings. \<open>JS_Error\<close> is an error object and \<open>JS_Object\<close> any other
  engine-owned object, by its handle.
\<close>

datatype JSValue =
  JS_UNDEFINED
| JS_NULL
| JS_EXCEPTION
| JS_Bool bool
| JS_Int "32 word"
| JS_String string
| JS_Error JSErrorClass string
| JS_Object nat

definition JS_IsException :: "JSValue \<Rightarrow> bool" where
  "JS_IsException v = (v = JS_EXCEPTION)"

text \<open>
  Modelled from the spec: \<^verbatim>\<open>JS_NewInt32(ctx, val)\<close> builds the Number variant that
  holds a 32-bit integer.
\<close>

definition JS_NewInt32 :: "'c \<Rightarrow> 32 word \<Rightarrow> JSValue" where
  "JS_NewInt32 c val = JS_Int val"

subsection \<open>The machine: one engine context and the UART\<close>

text \<open>
  \<open>ctx\<close> is the state behind the \<^verbatim>\<open>JSContext *\<close> (everything the engine keeps in
  its arena); \<open>uart\<close> is the sequence of bytes written to the UART so far. A C string is
  modelled by the bytes before its terminating NUL.
\<close>

record 'c machine =
  ctx :: 'c
  uart :: string

text \<open>
  Modelled from the spec: uart.h is not among the sources. The I/O sink's
  \<^verbatim>\<open>write_byte\<close> and \<^verbatim>\<open>write_bytes\<close> forward the bytes to the device, in order.
\<close>

definition uart_putc :: "char \<Rightarrow> 'c machine \<Rightarrow> 'c machine" where
  "uart_putc ch m = m\<lparr>uart := uart m @ [ch]\<rparr>"

definition uart_puts :: "string \<Rightarrow> 'c machine \<Rightarrow> 'c machine" where
  "uart_puts s m = m\<lparr>uart := uart m @ s\<rparr>"

subsection \<open>The engine's operations, as js.c calls them\<close>

text \<open>
  One field per engine function that js.c calls.
  \<^item> \<open>JS_NewContext mem size\<close>: the new context, or \<open>None\<close> for the NULL pointer.
  \<^item> \<open>JS_Eval m input input_len filename flags\<close>: runs a script; scripts call host
    functions, so evaluation acts on the whole machine. It returns the result value.
  \<^item> \<open>JS_ToCString c v\<close>: the C string of a value, or \<open>None\<close> for NULL; the conversion
    may change the context (it may allocate in the arena). As in its C signature it is
    given the context and the value only: a conversion writes nothing to the UART.
  \<^item> \<open>JS_GetException c\<close>: the pending exception of the context.
  \<^item> \<open>JS_GC c\<close>: a collection.
  \<^item> \<open>JS_Throw c cls msg\<close>: the context after an error of class \<open>cls\<close> with message
    \<open>msg\<close> has been made its pending exception.
  \<^verbatim>\<open>JS_FreeContext\<close> ends the context; nothing of it is observed afterwards, so it has
  no field.
\<close>

record 'c engine =
  JS_NewContext :: "8 word list \<Rightarrow> nat \<Rightarrow> 'c option"
  JS_Eval :: "'c machine \<Rightarrow> string \<Rightarrow> nat \<Rightarrow> string \<Rightarrow> int \<Rightarrow> 'c machine \<times> JSValue"
  JS_ToCString :: "'c \<Rightarrow> JSValue \<Rightarrow> 'c \<times> string option"
  JS_GetException :: "'c \<Rightarrow> 'c \<times> JSValue"
  JS_GC :: "'c \<Rightarrow> 'c"
  JS_Throw :: "'c \<Rightarrow> JSErrorClass \<Rightarrow> string \<Rightarrow> 'c"

text \<open>
  Modelled from the spec: \<^verbatim>\<open>JS_ThrowInternalError(ctx, msg)\<close> makes an InternalError
  with the message the pending exception of the context and returns the value tagged as
  an exception, which the engine propagates as a script-level throw at the call site.
\<close>

definition JS_ThrowInternalError :: "'c engine \<Rightarrow> 'c \<Rightarrow> string \<Rightarrow> 'c \<times> JSValue" where
  "JS_ThrowInternalError E c msg = (JS_Throw E c JS_CLASS_INTERNAL_ERROR msg, JS_EXCEPTION)"

subsection \<open>Host functions\<close>

text \<open>
  A host function receives \<^verbatim>\<open>(ctx, this_val, argc, argv)\<close>. \<open>argv\<close> is the list of the
  argument slots that exist; reading a slot that does not exist is outside what C defines
  and is the model's only fault. Every host function returns either that fault or the
  machine after the call with the returned value.
\<close>

datatype fault = Out_of_bounds_read int

definition argv_read :: "JSValue list \<Rightarrow> int \<Rightarrow> JSValue option" where
  "argv_read argv i = (if 0 \<le> i \<and> nat i < length argv then Some (argv ! nat i) else None)"

text \<open>
  The body of \<^verbatim>\<open>if (str) { uart_puts((char*)str); }\<close> in \<^verbatim>\<open>js_print\<close>: nothing
  is written for a NULL string, and nothing is released afterwards.
\<close>

definition puts_if_str :: "string option \<Rightarrow> 'c machine \<Rightarrow> 'c machine" where
  "puts_if_str str m = (case str of Some s \<Rightarrow> uart_puts s m | None \<Rightarrow> m)"

text \<open>
  The loop \<^verbatim>\<open>for (int i = 0; i < argc; i++)\<close> of \<^verbatim>\<open>js_print\<close>, from index \<open>i\<close>:
  the separator, then the conversion of slot \<open>i\<close>, then the string if there is one. \<open>i\<close>
  stays below \<open>argc\<close>, so the increment never overflows a C \<^verbatim>\<open>int\<close>.
\<close>

function js_print_loop ::
  "'c engine \<Rightarrow> int \<Rightarrow> int \<Rightarrow> JSValue list \<Rightarrow> 'c machine \<Rightarrow> fault + 'c machine" where
  "js_print_loop E i argc argv m =
     (if i < argc then
        (let m1 = (if i \<noteq> 0 then uart_putc (CHR '' '') m else m) in
         case argv_read argv i of
           None \<Rightarrow> Inl (Out_of_bounds_read i)
         | Some v \<Rightarrow>
             (case JS_ToCString E (ctx m1) v of
                (c, str) \<Rightarrow> js_print_loop E (i + 1) argc argv (puts_if_str str (m1\<lparr>ctx := c\<rparr>))))
      else Inr m)"
  by pat_completeness auto
termination
  by (relation "measure (\<lambda>(E, i, argc, argv, m). nat (argc - i))") auto

definition js_print ::
  "'c engine \<Rightarrow> JSValue \<Rightarrow> int \<Rightarrow> JSValue list \<Rightarrow> 'c machine \<Rightarrow> fault + ('c machine \<times> JSValue)" where
  "js_print E this_val argc argv m =
     (case js_print_loop E 0 argc argv m of
        Inl f \<Rightarrow> Inl f
      | Inr m' \<Rightarrow> Inr (uart_putc (CHR 0x0A) m', JS_UNDEFINED))"

declare js_print_loop.simps [simp del]

text \<open>
  The same function with its calls recorded. Every \<^verbatim>\<open>uart_putc\<close>, \<^verbatim>\<open>JS_ToCString\<close>
  and \<^verbatim>\<open>uart_puts\<close> that \<^verbatim>\<open>js_print\<close> executes appends one event, in the order in
  which the statements of js.c lines 30 to 81 run: the separator, then the call of the
  conversion, then the string if the conversion returned one. The events say in which
  order the UART and the engine are reached; the bytes on the UART are those of the
  \<open>Putc\<close> and \<open>Puts\<close> events.
\<close>

datatype event = Putc char | Puts string | ToCString JSValue

function js_print_loop_events ::
  "'c engine \<Rightarrow> int \<Rightarrow> int \<Rightarrow> JSValue list \<Rightarrow> 'c \<Rightarrow> event list \<Rightarrow> fault + ('c \<times> event list)" where
  "js_print_loop_events E i argc argv c evs =
     (if i < argc then
        (let evs1 = (if i \<noteq> 0 then evs @ [Putc (CHR '' '')] else evs) in
         case argv_read argv i of
           None \<Rightarrow> Inl (Out_of_bounds_read i)
         | Some v \<Rightarrow>
             (case JS_ToCString E c v of
                (c', str) \<Rightarrow>
                  js_print_loop_events E (i + 1) argc argv c'
                    (evs1 @ [ToCString v] @ (case str of Some s \<Rightarrow> [Puts s] | None \<Rightarrow> []))))
      else Inr (c, evs))"
  by pat_completeness auto
termination
  by (relation "measure (\<lambda>(E, i, argc, argv, c, evs). nat (argc - i))") auto

declare js_print_loop_events.simps [simp del]

definition js_print_events ::
  "'c engine \<Rightarrow> JSValue \<Rightarrow> int \<Rightarrow> JSValue list \<Rightarrow> 'c \<Rightarrow> fault + (('c \<times> event list) \<times> JSValue)" where
  "js_print_events E this_val argc argv c =
     (case js_print_loop_events E 0 argc argv c [] of
        Inl f \<Rightarrow> Inl f
      | Inr (c', evs) \<Rightarrow> Inr ((c', evs @ [Putc (CHR 0x0A)]), JS_UNDEFINED))"

fun uart_of_events :: "event list \<Rightarrow> string" where
  "uart_of_events [] = []"
| "uart_of_events (Putc ch # evs) = ch # uart_of_events evs"
| "uart_of_events (Puts s # evs) = s @ uart_of_events evs"
| "uart_of_events (ToCString v # evs) = uart_of_events evs"

definition js_date_now ::
  "'c engine \<Rightarrow> JSValue \<Rightarrow> int \<Rightarrow> JSValue list \<Rightarrow> 'c machine \<Rightarrow> fault + ('c machine \<times> JSValue)" where
  "js_date_now E this_val argc argv m = Inr (m, JS_NewInt32 (ctx m) 0)"

definition js_performance_now ::
  "'c engine \<Rightarrow> JSValue \<Rightarrow> int \<Rightarrow> JSValue list \<Rightarrow> 'c machine \<Rightarrow> fault + ('c machine \<times> JSValue)" where
  "js_performance_now E this_val argc argv m = Inr (m, JS_NewInt32 (ctx m) 0)"

definition js_gc ::
  "'c engine \<Rightarrow> JSValue \<Rightarrow> int \<Rightarrow> JSValue list \<Rightarrow> 'c machine \<Rightarrow> fault + ('c machine \<times> JSValue)" where
  "js_gc E this_val argc argv m = Inr (m\<lparr>ctx := JS_GC E (ctx m)\<rparr>, JS_UNDEFINED)"

definition js_load ::
  "'c engine \<Rightarrow> JSValue \<Rightarrow> int \<Rightarrow> JSValue list \<Rightarrow> 'c machine \<Rightarrow> fault + ('c machine \<times> JSValue)" where
  "js_load E this_val argc argv m =
     (case JS_ThrowInternalError E (ctx m) ''load not implemented'' of
        (c, v) \<Rightarrow> Inr (m\<lparr>ctx := c\<rparr>, v))"

definition js_setTimeout ::
  "'c engine \<Rightarrow> JSValue \<Rightarrow> int \<Rightarrow> JSValue list \<Rightarrow> 'c machine \<Rightarrow> fault + ('c machine \<times> JSValue)" where
  "js_setTimeout E this_val argc argv m = Inr (m, JS_NewInt32 (ctx m) 0)"

definition js_clearTimeout ::
  "'c engine \<Rightarrow> JSValue \<Rightarrow> int \<Rightarrow> JSValue list \<Rightarrow> 'c machine \<Rightarrow> fault + ('c machine \<times> JSValue)" where
  "js_clearTimeout E this_val argc argv m = Inr (m, JS_UNDEFINED)"

text \<open>
  The seven host functions js.c declares (lines 16 to 22) and defines, and the call of
  one of them with the engine's calling convention.
\<close>

datatype host_function =
  Print | Date_now | Performance_now | Gc | Load | SetTimeout | ClearTimeout

fun call_host ::
  "'c engine \<Rightarrow> host_function \<Rightarrow> JSValue \<Rightarrow> int \<Rightarrow> JSValue list \<Rightarrow> 'c machine \<Rightarrow>
   fault + ('c machine \<times> JSValue)" where
  "call_host E Print = js_print E"
| "call_host E Date_now = js_date_now E"
| "call_host E Performance_now = js_performance_now E"
| "call_host E Gc = js_gc E"
| "call_host E Load = js_load E"
| "call_host E SetTimeout = js_setTimeout E"
| "call_host E ClearTimeout = js_clearTimeout E"

subsection \<open>The driver\<close>

definition JS_MEMORY_SIZE :: nat where
  "JS_MEMORY_SIZE = 64 * 1024"

text \<open>The static buffer \<^verbatim>\<open>js_memory\<close>; static storage starts zeroed.\<close>

definition js_memory :: "8 word list" where
  "js_memory = replicate JS_MEMORY_SIZE 0"

text \<open>
  The embedded script, byte for byte as the C string literal denotes it: \<open>CHR 0x22\<close> is
  the double quote, \<open>CHR 0x5C\<close> the backslash, \<open>CHR 0x0A\<close> the newline.
\<close>

definition js_code :: string where
  "js_code =
     ''var msg = '' @ [CHR 0x22] @ ''Hello from JS!'' @ [CHR 0x22] @ '';'' @ [CHR 0x0A] @
     ''for (var i = 0; i < 10; i++) {'' @ [CHR 0x0A] @
     ''    var iteration_message = '' @ [CHR 0x22, CHR 0x22] @ '';'' @ [CHR 0x0A] @
     ''    for (var j = 0; j < i; j++) { iteration_message += msg; }'' @ [CHR 0x0A] @
     ''    iteration_message += '' @ [CHR 0x22, CHR 0x5C] @ ''n'' @ [CHR 0x22] @ '';'' @ [CHR 0x0A] @
     ''    print(iteration_message);'' @
     ''}'' @ [CHR 0x0A] @
     ''var successMessage = '' @ [CHR 0x22] @ ''Successful JavaScript!'' @ [CHR 0x5C] @ ''n'' @
       [CHR 0x22] @ '';'' @ [CHR 0x0A] @
     ''print(successMessage);''"

text \<open>
  \<^verbatim>\<open>main\<close>: the bytes it leaves on the UART and its return value, the exit status.
  \<^verbatim>\<open>sizeof(js_memory)\<close> is the length of the byte buffer and \<^verbatim>\<open>strlen(js_code)\<close>
  the length of the script, which holds no NUL.
\<close>

definition main :: "'c engine \<Rightarrow> string \<times> int" where
  "main E =
     (case JS_NewContext E js_memory (length js_memory) of
        None \<Rightarrow>
          (uart (uart_puts (''Failed to create JS context'' @ [CHR 0x0A]) \<lparr>ctx = (), uart = []\<rparr>), 1)
      | Some c \<Rightarrow>
          (case JS_Eval E \<lparr>ctx = c, uart = []\<rparr> js_code (length js_code) ''<input>'' 0 of
             (m, result) \<Rightarrow>
               if JS_IsException result then
                 (let m1 = uart_puts ''JS Exception: '' m in
                  case JS_GetException E (ctx m1) of
                    (c1, exception) \<Rightarrow>
                      (case JS_ToCString E c1 exception of
                         (c2, str) \<Rightarrow>
                           (uart (uart_putc (CHR 0x0A) (puts_if_str str (m1\<lparr>ctx := c2\<rparr>))), 0)))
               else
                 (case JS_ToCString E (ctx m) result of
                    (c1, str) \<Rightarrow>
                      (uart (case str of
                               Some s \<Rightarrow>
                                 uart_putc (CHR 0x0A)
                                   (uart_puts s (uart_puts ''Result: '' (m\<lparr>ctx := c1\<rparr>)))
                             | None \<Rightarrow> m\<lparr>ctx := c1\<rparr>), 0))))"


subsection \<open>The arena allocator\<close>

text \<open>
  Modelled from the spec: the allocator of the engine is code of mquickjs and not among
  the sources. The spec's Arena Allocator owns one byte buffer of fixed capacity, the
  one handed to context creation, and satisfies the allocation requests of the engine
  from that buffer; the total of the bytes ever carved out never exceeds the capacity;
  allocation is bump-style and no region returns to a free list; a request that the
  remaining space cannot hold fails with OutOfMemory; and no general-purpose heap is
  touched (the allocator has no other source of memory). A satisfied request is a block
  of the buffer, by its offset and its length.
\<close>

record arena =
  capacity :: nat
  carved :: nat

definition arena_create :: "8 word list \<Rightarrow> nat \<Rightarrow> arena" where
  "arena_create mem sz = \<lparr>capacity = sz, carved = 0\<rparr>"

datatype allocation = Block nat nat | OutOfMemory

definition arena_alloc :: "nat \<Rightarrow> arena \<Rightarrow> allocation \<times> arena" where
  "arena_alloc n a =
     (if carved a + n \<le> capacity a then (Block (carved a) n, a\<lparr>carved := carved a + n\<rparr>)
      else (OutOfMemory, a))"

text \<open>The requests of a context's lifetime, in order, and what each one got.\<close>

fun arena_allocs :: "nat list \<Rightarrow> arena \<Rightarrow> allocation list" where
  "arena_allocs [] a = []"
| "arena_allocs (n # ns) a = (case arena_alloc n a of (r, a') \<Rightarrow> r # arena_allocs ns a')"


subsection \<open>The embedded script, run against the host functions\<close>

text \<open>
  The script of \<open>js_code\<close> as a program over the machine: its variables are the
  arguments of the loops, \<^verbatim>\<open>+=\<close> on strings is concatenation, and each \<^verbatim>\<open>print(x)\<close>
  is the call of \<open>js_print\<close> with one argument slot that holds the string value. A host
  function's result tagged as an exception ends the script with that result, as does a
  fault of the host function.
\<close>

text \<open>\<^verbatim>\<open>for (var j = 0; j < i; j++) { iteration_message += msg; }\<close>, from \<open>j\<close>.\<close>

function js_code_inner_loop :: "string \<Rightarrow> int \<Rightarrow> int \<Rightarrow> string \<Rightarrow> string" where
  "js_code_inner_loop msg i j iteration_message =
     (if j < i then js_code_inner_loop msg i (j + 1) (iteration_message @ msg)
      else iteration_message)"
  by pat_completeness auto
termination
  by (relation "measure (\<lambda>(msg, i, j, iteration_message). nat (i - j))") auto

declare js_code_inner_loop.simps [simp del]

text \<open>\<^verbatim>\<open>for (var i = 0; i < 10; i++) { ... print(iteration_message); }\<close>, from \<open>i\<close>.\<close>

function js_code_outer_loop ::
  "'c engine \<Rightarrow> string \<Rightarrow> int \<Rightarrow> 'c machine \<Rightarrow> fault + ('c machine \<times> JSValue)" where
  "js_code_outer_loop E msg i m =
     (if i < 10 then
        (let iteration_message = [];
             iteration_message = js_code_inner_loop msg i 0 iteration_message;
             iteration_message = iteration_message @ [CHR 0x0A]
         in case js_print E JS_UNDEFINED 1 [JS_String iteration_message] m of
              Inl f \<Rightarrow> Inl f
            | Inr (m', r) \<Rightarrow>
                if JS_IsException r then Inr (m', r) else js_code_outer_loop E msg (i + 1) m')
      else Inr (m, JS_UNDEFINED))"
  by pat_completeness auto
termination
  by (relation "measure (\<lambda>(E, msg, i, m). nat (10 - i))") auto

declare js_code_outer_loop.simps [simp del]

definition js_code_run :: "'c engine \<Rightarrow> 'c machine \<Rightarrow> fault + ('c machine \<times> JSValue)" where
  "js_code_run E m =
     (let msg = ''Hello from JS!'' in
      case js_code_outer_loop E msg 0 m of
        Inl f \<Rightarrow> Inl f
      | Inr (m1, r) \<Rightarrow>
          if JS_IsException r then Inr (m1, r)
          else
            (let successMessage = ''Successful JavaScript!'' @ [CHR 0x0A]
             in js_print E JS_UNDEFINED 1 [JS_String successMessage] m1))"

subsection \<open>Notions the properties are stated with\<close>

text \<open>
  The conversions \<open>js_print\<close> asks of the engine for the argument slots, in order: the
  context they leave and the strings they return (\<open>None\<close> for NULL).
\<close>

fun to_cstrings :: "'c engine \<Rightarrow> 'c \<Rightarrow> JSValue list \<Rightarrow> 'c \<times> string option list" where
  "to_cstrings E c [] = (c, [])"
| "to_cstrings E c (v # vs) =
     (case JS_ToCString E c v of
        (c1, str) \<Rightarrow> (case to_cstrings E c1 vs of (c2, strs) \<Rightarrow> (c2, str # strs)))"

text \<open>
  The bytes of a sequence of conversion results when each result after the first (or
  each result, if \<open>sep\<close>) is preceded by one space and a NULL result adds nothing.
\<close>

fun arg_bytes :: "bool \<Rightarrow> string option list \<Rightarrow> string" where
  "arg_bytes sep [] = []"
| "arg_bytes sep (str # strs) =
     (if sep then '' '' else []) @ (case str of Some s \<Rightarrow> s | None \<Rightarrow> []) @ arg_bytes True strs"

text \<open>
  The events of a sequence of argument slots and their conversion results: for each
  slot the space (if it is not the first), the call of the conversion, and the string if
  there is one.
\<close>

fun arg_events :: "bool \<Rightarrow> JSValue list \<Rightarrow> string option list \<Rightarrow> event list" where
  "arg_events sep (v # vs) (str # strs) =
     (if sep then [Putc (CHR '' '')] else []) @ [ToCString v] @
     (case str of Some s \<Rightarrow> [Puts s] | None \<Rightarrow> []) @ arg_events True vs strs"
| "arg_events sep vs strs = []"

text \<open>Strings joined by a single space.\<close>

fun join_space :: "string list \<Rightarrow> string" where
  "join_space [] = []"
| "join_space [s] = s"
| "join_space (s # t # ss) = s @ '' '' @ join_space (t # ss)"

text \<open>
  The byte stream of the demo: for each \<open>i\<close> from 0 to 9 the message of \<open>i\<close> repetitions
  of the greeting and a newline, then the newline print appends; then the final message
  with its newline, then the newline print appends.
\<close>

text \<open>
  The eleven strings the script passes to print: for each \<open>i\<close> from 0 to 9 the
  repetitions with their newline, and the final message with its newline.
\<close>

definition demo_messages :: "string list" where
  "demo_messages =
     map (\<lambda>i. concat (replicate i ''Hello from JS!'') @ [CHR 0x0A]) [0..<10] @
     [''Successful JavaScript!'' @ [CHR 0x0A]]"

definition demo_output :: string where
  "demo_output =
     concat (map (\<lambda>i. concat (replicate i ''Hello from JS!'') @ [CHR 0x0A] @ [CHR 0x0A]) [0..<10]) @
     ''Successful JavaScript!'' @ [CHR 0x0A] @ [CHR 0x0A]"

text \<open>
  A sequence of calls of the two clock functions, each with its own receiver, arguments
  and machine state (whatever ran in between), and the values the calls return.
\<close>

datatype clock_function = Now | PerformanceNow

fun call_clock ::
  "'c engine \<Rightarrow> clock_function \<Rightarrow> JSValue \<Rightarrow> int \<Rightarrow> JSValue list \<Rightarrow> 'c machine \<Rightarrow>
   fault + ('c machine \<times> JSValue)" where
  "call_clock E Now = js_date_now E"
| "call_clock E PerformanceNow = js_performance_now E"

text \<open>The numeric order on returned values; only 32-bit integers compare.\<close>

fun timestamp_le :: "fault + ('c machine \<times> JSValue) \<Rightarrow> fault + ('c machine \<times> JSValue) \<Rightarrow> bool" where
  "timestamp_le (Inr (m, JS_Int a)) (Inr (m', JS_Int b)) = (sint a \<le> sint b)"
| "timestamp_le x y = False"

subsection \<open>A small engine to run the model on\<close>

text \<open>
  An engine that follows the commentary in \<^verbatim>\<open>js_print\<close> (js.c lines 37 to 78) on
  \<^verbatim>\<open>JS_ToCString\<close>: a string value is returned by reference to its content, which as
  a C string ends before its first NUL; any other value is converted, into the caller's \<^verbatim>\<open>JSCStringBuf\<close> when the text fits
  (\<^verbatim>\<open>len <= sizeof(buf->buf) - 1\<close>) and otherwise into \<^verbatim>\<open>len + 1\<close> bytes that
  \<^verbatim>\<open>js_malloc\<close> takes from the arena, which stay allocated until
  \<^verbatim>\<open>JS_FreeContext\<close>; when the arena cannot hold them the result is NULL. Its context
  is the arena's size, the bytes \<^verbatim>\<open>js_malloc\<close> has handed out, and the pending
  exception. It serves to evaluate the model on concrete inputs.
\<close>

record ref_ctx =
  mem_size :: nat
  mem_used :: nat
  pending :: JSValue

function dec_nat :: "nat \<Rightarrow> string" where
  "dec_nat n =
     (if n < 10 then [''0123456789'' ! n] else dec_nat (n div 10) @ [''0123456789'' ! (n mod 10)])"
  by pat_completeness auto
termination
  by (relation "measure id") auto

declare dec_nat.simps [simp del]

fun ref_class_name :: "JSErrorClass \<Rightarrow> string" where
  "ref_class_name JS_CLASS_ERROR = ''Error''"
| "ref_class_name JS_CLASS_INTERNAL_ERROR = ''InternalError''"
| "ref_class_name JS_CLASS_RANGE_ERROR = ''RangeError''"
| "ref_class_name JS_CLASS_REFERENCE_ERROR = ''ReferenceError''"
| "ref_class_name JS_CLASS_SYNTAX_ERROR = ''SyntaxError''"
| "ref_class_name JS_CLASS_TYPE_ERROR = ''TypeError''"

fun ref_text :: "JSValue \<Rightarrow> string" where
  "ref_text JS_UNDEFINED = ''undefined''"
| "ref_text JS_NULL = ''null''"
| "ref_text JS_EXCEPTION = ''[exception]''"
| "ref_text (JS_Bool b) = (if b then ''true'' else ''false'')"
| "ref_text (JS_Int w) =
     (if sint w < 0 then CHR ''-'' # dec_nat (nat (- sint w)) else dec_nat (nat (sint w)))"
| "ref_text (JS_String s) = s"
| "ref_text (JS_Error cls msg) = ref_class_name cls @ '': '' @ msg"
| "ref_text (JS_Object h) = ''[object Object]''"

definition ref_ToCString :: "nat \<Rightarrow> ref_ctx \<Rightarrow> JSValue \<Rightarrow> ref_ctx \<times> string option" where
  "ref_ToCString bufsize c v =
     (case v of
        JS_String s \<Rightarrow> (c, Some (takeWhile (\<lambda>ch. ch \<noteq> CHR 0x00) s))
      | _ \<Rightarrow>
          (let s = ref_text v; len = length s in
           if len + 1 \<le> bufsize then (c, Some s)
           else if mem_used c + (len + 1) \<le> mem_size c
             then (c\<lparr>mem_used := mem_used c + (len + 1)\<rparr>, Some s)
             else (c, None)))"

definition ref_engine ::
  "nat \<Rightarrow> (ref_ctx machine \<Rightarrow> string \<Rightarrow> nat \<Rightarrow> string \<Rightarrow> int \<Rightarrow> ref_ctx machine \<times> JSValue) \<Rightarrow>
   ref_ctx engine" where
  "ref_engine bufsize ev =
     \<lparr>JS_NewContext =
        (\<lambda>mem size. if size = 0 then None
           else Some \<lparr>mem_size = size, mem_used = 0, pending = JS_UNDEFINED\<rparr>),
      JS_Eval = ev,
      JS_ToCString = ref_ToCString bufsize,
      JS_GetException = (\<lambda>c. (c\<lparr>pending := JS_UNDEFINED\<rparr>, pending c)),
      JS_GC = (\<lambda>c. c),
      JS_Throw = (\<lambda>c cls msg. c\<lparr>pending := JS_Error cls msg\<rparr>)\<rparr>"

text \<open>An evaluation that ends in an uncaught exception, whatever the script.\<close>

definition eval_throws ::
  "ref_ctx machine \<Rightarrow> string \<Rightarrow> nat \<Rightarrow> string \<Rightarrow> int \<Rightarrow> ref_ctx machine \<times> JSValue" where
  "eval_throws m input input_len filename flags =
     (m\<lparr>ctx := (ctx m)\<lparr>pending := JS_Error JS_CLASS_INTERNAL_ERROR ''out of memory''\<rparr>\<rparr>,
      JS_EXCEPTION)"

text \<open>\<open>n\<close> calls of \<^verbatim>\<open>print(undefined)\<close> in a row.\<close>

fun print_undefined_times :: "'c engine \<Rightarrow> nat \<Rightarrow> 'c machine \<Rightarrow> fault + 'c machine" where
  "print_undefined_times E 0 m = Inr m"
| "print_undefined_times E (Suc n) m =
     (case js_print E JS_UNDEFINED 1 [JS_UNDEFINED] m of
        Inl f \<Rightarrow> Inl f
      | Inr (m', r) \<Rightarrow> print_undefined_times E n m')"

section \<open>Properties\<close>

subsection \<open>What the loop of print computes\<close>

lemma js_print_loop_done: "argc \<le> i \<Longrightarrow> js_print_loop E i argc argv m = Inr m"
  by (subst js_print_loop.simps) simp

lemma slice_step:
  assumes "0 \<le> i" "i < argc" "nat argc \<le> length argv"
  shows "take (nat (argc - i)) (drop (nat i) argv) =
         argv ! nat i # take (nat (argc - (i + 1))) (drop (nat (i + 1)) argv)"
proof -
  have lt: "nat i < length argv" using assms by linarith
  have a: "nat (argc - i) = Suc (nat (argc - (i + 1)))" using assms by linarith
  have b: "nat (i + 1) = Suc (nat i)" using assms by linarith
  show ?thesis
    unfolding a b using Cons_nth_drop_Suc [OF lt, symmetric] by simp
qed

lemma js_print_loop_step:
  assumes "0 \<le> i" "i < argc" "nat argc \<le> length argv"
    and "JS_ToCString E (ctx m) (argv ! nat i) = (c, str)"
  shows "js_print_loop E i argc argv m =
         js_print_loop E (i + 1) argc argv
           (m\<lparr>ctx := c,
            uart := uart m @ (if i \<noteq> 0 then '' '' else []) @ (case str of Some s \<Rightarrow> s | None \<Rightarrow> [])\<rparr>)"
proof -
  have rd: "argv_read argv i = Some (argv ! nat i)"
    using assms by (simp add: argv_read_def)
  have "js_print_loop E i argc argv m =
        js_print_loop E (i + 1) argc argv
          (puts_if_str str ((if i \<noteq> 0 then uart_putc (CHR '' '') m else m)\<lparr>ctx := c\<rparr>))"
    using assms(2,4) rd
    by (subst js_print_loop.simps) (auto simp: Let_def uart_putc_def)
  also have "puts_if_str str ((if i \<noteq> 0 then uart_putc (CHR '' '') m else m)\<lparr>ctx := c\<rparr>) =
     m\<lparr>ctx := c,
       uart := uart m @ (if i \<noteq> 0 then '' '' else []) @ (case str of Some s \<Rightarrow> s | None \<Rightarrow> [])\<rparr>"
    by (simp add: puts_if_str_def uart_puts_def uart_putc_def split: option.split)
  finally show ?thesis .
qed

lemma js_print_loop_eq:
  "n = nat (argc - i) \<Longrightarrow> 0 \<le> i \<Longrightarrow> i \<le> argc \<Longrightarrow> nat argc \<le> length argv \<Longrightarrow>
   to_cstrings E (ctx m) (take n (drop (nat i) argv)) = (c', strs) \<Longrightarrow>
   js_print_loop E i argc argv m =
     Inr (m\<lparr>ctx := c', uart := uart m @ arg_bytes (i \<noteq> 0) strs\<rparr>)"
proof (induction n arbitrary: i m strs)
  case 0
  then have "i = argc" by simp
  with 0 show ?case by (simp add: js_print_loop_done)
next
  case (Suc n)
  then have lt: "i < argc" by linarith
  have n: "n = nat (argc - (i + 1))" using Suc.prems(1) by linarith
  have sl: "take (Suc n) (drop (nat i) argv) =
         argv ! nat i # take n (drop (nat (i + 1)) argv)"
    using slice_step [OF Suc.prems(2) lt Suc.prems(4)] Suc.prems(1) n by simp
  obtain c str where cv: "JS_ToCString E (ctx m) (argv ! nat i) = (c, str)"
    by (cases "JS_ToCString E (ctx m) (argv ! nat i)")
  obtain c2 rest where rs: "to_cstrings E c (take n (drop (nat (i + 1)) argv)) = (c2, rest)"
    by (cases "to_cstrings E c (take n (drop (nat (i + 1)) argv))")
  from Suc.prems(5) sl cv rs have eqs: "c' = c2" "strs = str # rest" by simp_all
  let ?m2 = "m\<lparr>ctx := c,
            uart := uart m @ (if i \<noteq> 0 then '' '' else []) @ (case str of Some s \<Rightarrow> s | None \<Rightarrow> [])\<rparr>"
  have IH: "js_print_loop E (i + 1) argc argv ?m2 =
     Inr (?m2\<lparr>ctx := c', uart := uart ?m2 @ arg_bytes (i + 1 \<noteq> 0) rest\<rparr>)"
    by (rule Suc.IH [OF n]) (use Suc.prems lt rs eqs in simp_all)
  have nz: "i + 1 \<noteq> 0" using Suc.prems(2) by simp
  show ?case
    unfolding js_print_loop_step [OF Suc.prems(2) lt Suc.prems(4) cv] IH eqs
    using nz by simp
qed

lemma js_print_eq:
  assumes "0 \<le> argc" "nat argc \<le> length argv"
    and "to_cstrings E (ctx m) (take (nat argc) argv) = (c', strs)"
  shows "js_print E this_val argc argv m =
     Inr (m\<lparr>ctx := c', uart := uart m @ arg_bytes False strs @ [CHR 0x0A]\<rparr>, JS_UNDEFINED)"
proof -
  have "js_print_loop E 0 argc argv m = Inr (m\<lparr>ctx := c', uart := uart m @ arg_bytes (0 \<noteq> (0::int)) strs\<rparr>)"
    by (rule js_print_loop_eq [where n = "nat argc"]) (use assms in simp_all)
  then show ?thesis by (simp add: js_print_def uart_putc_def)
qed

lemma length_to_cstrings: "length (snd (to_cstrings E c vs)) = length vs"
proof (induction vs arbitrary: c)
  case Nil
  show ?case by simp
next
  case (Cons v vs)
  obtain c1 str where a: "JS_ToCString E c v = (c1, str)"
    by (cases "JS_ToCString E c v")
  obtain c2 strs where b: "to_cstrings E c1 vs = (c2, strs)"
    by (cases "to_cstrings E c1 vs")
  from Cons [of c1] b have "length strs = length vs" by simp
  then show ?case by (simp add: a b)
qed

lemma arg_bytes_append:
  "arg_bytes sep (xs @ ys) = arg_bytes sep xs @ arg_bytes (sep \<or> xs \<noteq> []) ys"
  by (induction xs arbitrary: sep) auto

lemma arg_bytes_Some_sep: "arg_bytes True (map Some strs) = concat (map (\<lambda>s. CHR '' '' # s) strs)"
  by (induction strs) auto

lemma arg_bytes_join: "arg_bytes False (map Some strs) = join_space strs"
proof (induction strs rule: join_space.induct)
  case (3 s t ss)
  have "arg_bytes False (map Some (s # t # ss)) = s @ arg_bytes True (map Some (t # ss))" by simp
  also have "arg_bytes True (map Some (t # ss)) = '' '' @ arg_bytes False (map Some (t # ss))" by simp
  finally show ?case using 3 by simp
qed simp_all

lemma js_print_one_string:
  assumes "snd (JS_ToCString E (ctx m) (JS_String s)) = Some s"
  shows "js_print E this_val 1 [JS_String s] m =
     Inr (m\<lparr>ctx := fst (JS_ToCString E (ctx m) (JS_String s)),
            uart := uart m @ s @ [CHR 0x0A]\<rparr>, JS_UNDEFINED)"
proof -
  have "to_cstrings E (ctx m) (take (nat 1) [JS_String s]) =
        (fst (JS_ToCString E (ctx m) (JS_String s)), [Some s])"
    using assms by (cases "JS_ToCString E (ctx m) (JS_String s)") simp
  from js_print_eq [OF _ _ this] show ?thesis by simp
qed

subsection \<open>The calls of print in program order\<close>

lemma uart_of_events_append:
  "uart_of_events (xs @ ys) = uart_of_events xs @ uart_of_events ys"
  by (induction xs rule: uart_of_events.induct) simp_all

lemma js_print_loop_events_done:
  "argc \<le> i \<Longrightarrow> js_print_loop_events E i argc argv c evs = Inr (c, evs)"
  by (subst js_print_loop_events.simps) simp

lemma js_print_loop_events_step:
  assumes "0 \<le> i" "i < argc" "nat argc \<le> length argv"
    and "JS_ToCString E c (argv ! nat i) = (c1, str)"
  shows "js_print_loop_events E i argc argv c evs =
         js_print_loop_events E (i + 1) argc argv c1
           (evs @ arg_events (i \<noteq> 0) [argv ! nat i] [str])"
proof -
  have rd: "argv_read argv i = Some (argv ! nat i)"
    using assms by (simp add: argv_read_def)
  show ?thesis
    using assms(2,4) rd
    by (subst js_print_loop_events.simps) (auto simp: Let_def split: option.split)
qed

lemma arg_events_Cons:
  "arg_events sep [v] [str] @ arg_events True vs strs = arg_events sep (v # vs) (str # strs)"
  by simp

lemma js_print_loop_events_eq:
  "n = nat (argc - i) \<Longrightarrow> 0 \<le> i \<Longrightarrow> i \<le> argc \<Longrightarrow> nat argc \<le> length argv \<Longrightarrow>
   to_cstrings E c (take n (drop (nat i) argv)) = (c', strs) \<Longrightarrow>
   js_print_loop_events E i argc argv c evs =
     Inr (c', evs @ arg_events (i \<noteq> 0) (take n (drop (nat i) argv)) strs)"
proof (induction n arbitrary: i c evs strs)
  case 0
  then have "i = argc" by simp
  with 0 show ?case by (simp add: js_print_loop_events_done)
next
  case (Suc n)
  then have lt: "i < argc" by linarith
  have n: "n = nat (argc - (i + 1))" using Suc.prems(1) by linarith
  have sl: "take (Suc n) (drop (nat i) argv) =
         argv ! nat i # take n (drop (nat (i + 1)) argv)"
    using slice_step [OF Suc.prems(2) lt Suc.prems(4)] Suc.prems(1) n by simp
  obtain c1 str where cv: "JS_ToCString E c (argv ! nat i) = (c1, str)"
    by (cases "JS_ToCString E c (argv ! nat i)")
  obtain c2 rest where rs: "to_cstrings E c1 (take n (drop (nat (i + 1)) argv)) = (c2, rest)"
    by (cases "to_cstrings E c1 (take n (drop (nat (i + 1)) argv))")
  from Suc.prems(5) sl cv rs have eqs: "c' = c2" "strs = str # rest" by simp_all
  have nz: "(i + 1 \<noteq> 0) = True" using Suc.prems(2) by simp
  have IH: "js_print_loop_events E (i + 1) argc argv c1 (evs @ arg_events (i \<noteq> 0) [argv ! nat i] [str]) =
     Inr (c', (evs @ arg_events (i \<noteq> 0) [argv ! nat i] [str]) @
              arg_events (i + 1 \<noteq> 0) (take n (drop (nat (i + 1)) argv)) rest)"
    by (rule Suc.IH [OF n]) (use Suc.prems lt rs eqs in simp_all)
  show ?case
    unfolding js_print_loop_events_step [OF Suc.prems(2) lt Suc.prems(4) cv] IH sl eqs nz
    by (simp del: arg_events.simps add: arg_events_Cons)
qed

lemma js_print_events_eq:
  assumes "0 \<le> argc" "nat argc \<le> length argv"
    and "to_cstrings E c (take (nat argc) argv) = (c', strs)"
  shows "js_print_events E this_val argc argv c =
     Inr ((c', arg_events False (take (nat argc) argv) strs @ [Putc (CHR 0x0A)]), JS_UNDEFINED)"
proof -
  have "js_print_loop_events E 0 argc argv c [] =
        Inr (c', [] @ arg_events (0 \<noteq> (0::int)) (take (nat argc) (drop (nat 0) argv)) strs)"
    by (rule js_print_loop_events_eq) (use assms in simp_all)
  then show ?thesis by (simp add: js_print_events_def)
qed

text \<open>The recorded function and \<open>js_print\<close> agree on every input, faults included.\<close>

lemma js_print_loop_events_agree:
  "n = nat (argc - i) \<Longrightarrow> uart m = u @ uart_of_events evs \<Longrightarrow>
   js_print_loop E i argc argv m =
     (case js_print_loop_events E i argc argv (ctx m) evs of
        Inl f \<Rightarrow> Inl f
      | Inr (c', evs') \<Rightarrow> Inr (m\<lparr>ctx := c', uart := u @ uart_of_events evs'\<rparr>))"
proof (induction n arbitrary: i m evs)
  case 0
  then have "argc \<le> i" by simp
  then show ?case using 0 by (simp add: js_print_loop_done js_print_loop_events_done)
next
  case (Suc n)
  then have lt: "i < argc" by linarith
  have n: "n = nat (argc - (i + 1))" using Suc.prems(1) by linarith
  show ?case
  proof (cases "argv_read argv i")
    case None
    then show ?thesis using lt
      by (subst js_print_loop.simps, subst js_print_loop_events.simps) (simp add: Let_def)
  next
    case (Some v)
    obtain c1 str where cv: "JS_ToCString E (ctx m) v = (c1, str)"
      by (cases "JS_ToCString E (ctx m) v")
    let ?m1 = "if i \<noteq> 0 then uart_putc (CHR '' '') m else m"
    let ?m2 = "puts_if_str str (?m1\<lparr>ctx := c1\<rparr>)"
    let ?evs2 = "(if i \<noteq> 0 then evs @ [Putc (CHR '' '')] else evs) @ [ToCString v] @
                 (case str of Some s \<Rightarrow> [Puts s] | None \<Rightarrow> [])"
    have c1: "ctx ?m1 = ctx m" by (simp add: uart_putc_def)
    have l: "js_print_loop E i argc argv m = js_print_loop E (i + 1) argc argv ?m2"
      using lt Some cv c1 by (subst js_print_loop.simps) (simp add: Let_def)
    have r: "js_print_loop_events E i argc argv (ctx m) evs =
             js_print_loop_events E (i + 1) argc argv c1 ?evs2"
      using lt Some cv by (subst js_print_loop_events.simps) (simp add: Let_def)
    have c2: "ctx ?m2 = c1"
      by (simp add: puts_if_str_def uart_puts_def uart_putc_def split: option.split)
    have u2: "uart ?m2 = u @ uart_of_events ?evs2"
      using Suc.prems(2)
      by (simp add: puts_if_str_def uart_puts_def uart_putc_def uart_of_events_append
          split: option.split)
    have upd: "?m2\<lparr>ctx := a, uart := b\<rparr> = m\<lparr>ctx := a, uart := b\<rparr>" for a b
      by (simp add: puts_if_str_def uart_puts_def uart_putc_def split: option.split)
    from Suc.IH [OF n u2] show ?thesis
      unfolding l r c2 by (simp add: upd cong: sum.case_cong prod.case_cong)
  qed
qed

lemma js_print_events_agree:
  "js_print E this_val argc argv m =
     (case js_print_events E this_val argc argv (ctx m) of
        Inl f \<Rightarrow> Inl f
      | Inr ((c', evs), r) \<Rightarrow> Inr (m\<lparr>ctx := c', uart := uart m @ uart_of_events evs\<rparr>, r))"
  using js_print_loop_events_agree [of "nat (argc - 0)" argc 0 m "uart m" "[]" E argv]
  by (auto simp: js_print_def js_print_events_def uart_putc_def uart_of_events_append
      split: sum.split)

lemma arg_events_append:
  "length xs = length rs \<Longrightarrow>
   arg_events sep (xs @ ys) (rs @ ss) = arg_events sep xs rs @ arg_events (sep \<or> xs \<noteq> []) ys ss"
proof (induction xs arbitrary: rs sep)
  case Nil
  then show ?case by simp
next
  case (Cons x xs)
  then obtain r rs' where rs: "rs = r # rs'" by (cases rs) auto
  with Cons show ?case by simp
qed

subsection \<open>The reference engine\<close>

lemma js_print_undefined_ref:
  assumes "mem_used (ctx m) + 10 \<le> mem_size (ctx m)"
  shows "js_print (ref_engine 5 ev) this_val 1 [JS_UNDEFINED] m =
     Inr (m\<lparr>ctx := (ctx m)\<lparr>mem_used := mem_used (ctx m) + 10\<rparr>,
            uart := uart m @ ''undefined'' @ [CHR 0x0A]\<rparr>, JS_UNDEFINED)"
proof -
  have "to_cstrings (ref_engine 5 ev) (ctx m) (take (nat 1) [JS_UNDEFINED]) =
        ((ctx m)\<lparr>mem_used := mem_used (ctx m) + 10\<rparr>, [Some ''undefined''])"
    using assms by (simp add: ref_engine_def ref_ToCString_def)
  from js_print_eq [OF _ _ this] show ?thesis by simp
qed

lemma print_undefined_times_ref:
  "mem_used (ctx m) + 10 * n \<le> mem_size (ctx m) \<Longrightarrow>
   \<exists>m'. print_undefined_times (ref_engine 5 ev) n m = Inr m' \<and>
        mem_used (ctx m') = mem_used (ctx m) + 10 * n \<and> mem_size (ctx m') = mem_size (ctx m)"
proof (induction n arbitrary: m)
  case 0
  then show ?case by simp
next
  case (Suc n)
  let ?m1 = "m\<lparr>ctx := (ctx m)\<lparr>mem_used := mem_used (ctx m) + 10\<rparr>,
            uart := uart m @ ''undefined'' @ [CHR 0x0A]\<rparr>"
  have p: "js_print (ref_engine 5 ev) JS_UNDEFINED 1 [JS_UNDEFINED] m = Inr (?m1, JS_UNDEFINED)"
    by (rule js_print_undefined_ref) (use Suc.prems in simp)
  have "mem_used (ctx ?m1) + 10 * n \<le> mem_size (ctx ?m1)" using Suc.prems by simp
  from Suc.IH [OF this] show ?case by (simp add: p add.assoc)
qed

lemma ref_ToCString_c_string:
  "CHR 0x00 \<notin> set s \<Longrightarrow> ref_ToCString bufsize c (JS_String s) = (c, Some s)"
  by (auto simp: ref_ToCString_def takeWhile_eq_all_conv)

subsection \<open>The script and the driver\<close>

lemma js_code_inner_loop_eq:
  "n = nat (i - j) \<Longrightarrow>
   js_code_inner_loop msg i j acc = acc @ concat (replicate n msg)"
proof (induction n arbitrary: j acc)
  case 0
  then show ?case by (subst js_code_inner_loop.simps) simp
next
  case (Suc n)
  then have lt: "j < i" and n: "n = nat (i - (j + 1))" by linarith+
  have "js_code_inner_loop msg i j acc = js_code_inner_loop msg i (j + 1) (acc @ msg)"
    using lt by (subst js_code_inner_loop.simps) simp
  also have "\<dots> = (acc @ msg) @ concat (replicate n msg)"
    by (rule Suc.IH [OF n])
  finally show ?case by simp
qed

lemma demo_message_mem:
  assumes "0 \<le> i" and "i < 10"
  shows "concat (replicate (nat i) ''Hello from JS!'') @ [CHR 0x0A] \<in> set demo_messages"
proof -
  have "nat i \<in> set [0..<10]" using assms by simp
  then have "(\<lambda>k. concat (replicate k ''Hello from JS!'') @ [CHR 0x0A]) (nat i) \<in>
        set (map (\<lambda>k. concat (replicate k ''Hello from JS!'') @ [CHR 0x0A]) [0..<10])"
    unfolding set_map by (rule imageI)
  then show ?thesis
    unfolding demo_messages_def set_append by (rule UnI1)
qed

lemma demo_message_last: "''Successful JavaScript!'' @ [CHR 0x0A] \<in> set demo_messages"
  unfolding demo_messages_def by simp

lemma set_concat_replicate: "set (concat (replicate n xs)) \<subseteq> set xs"
  by (induction n) auto

lemma demo_messages_no_NUL:
  assumes "s \<in> set demo_messages"
  shows "CHR 0x00 \<notin> set s"
proof -
  have g: "CHR 0x00 \<notin> set ''Hello from JS!''" by simp
  from assms consider k where "s = concat (replicate k ''Hello from JS!'') @ [CHR 0x0A]"
    | "s = ''Successful JavaScript!'' @ [CHR 0x0A]"
    unfolding demo_messages_def set_append set_map by auto
  then show ?thesis
  proof cases
    case 1
    have "set s \<subseteq> set ''Hello from JS!'' \<union> {CHR 0x0A}"
      unfolding 1 using set_concat_replicate [of k "''Hello from JS!''"] by auto
    then show ?thesis using g by auto
  next
    case 2
    then show ?thesis by simp
  qed
qed

lemma js_code_outer_loop_stream:
  assumes conv: "\<And>c s. s \<in> set demo_messages \<Longrightarrow> snd (JS_ToCString E c (JS_String s)) = Some s"
  shows "n = nat (10 - i) \<Longrightarrow> 0 \<le> i \<Longrightarrow> i \<le> 10 \<Longrightarrow>
   \<exists>m'. js_code_outer_loop E ''Hello from JS!'' i m = Inr (m', JS_UNDEFINED) \<and>
        uart m' = uart m @
          concat (map (\<lambda>k. concat (replicate k ''Hello from JS!'') @ [CHR 0x0A] @ [CHR 0x0A])
                    [nat i..<10])"
proof (induction n arbitrary: i m)
  case 0
  then have "i = 10" by simp
  then show ?case by (subst js_code_outer_loop.simps) simp
next
  case (Suc n)
  then have lt: "i < 10" and n: "n = nat (10 - (i + 1))" by linarith+
  let ?msg = "''Hello from JS!''"
  let ?s = "concat (replicate (nat i) ?msg) @ [CHR 0x0A]"
  let ?m1 = "m\<lparr>ctx := fst (JS_ToCString E (ctx m) (JS_String ?s)),
               uart := uart m @ ?s @ [CHR 0x0A]\<rparr>"
  have inner: "js_code_inner_loop ?msg i 0 [] = concat (replicate (nat i) ?msg)"
    using js_code_inner_loop_eq [of "nat i" i 0 ?msg "[]"] by simp
  have pr: "js_print E JS_UNDEFINED 1 [JS_String ?s] m = Inr (?m1, JS_UNDEFINED)"
    by (rule js_print_one_string) (rule conv [OF demo_message_mem [OF Suc.prems(2) lt]])
  have step: "js_code_outer_loop E ?msg i m = js_code_outer_loop E ?msg (i + 1) ?m1"
    using lt by (subst js_code_outer_loop.simps) (simp add: inner pr JS_IsException_def)
  from Suc.IH [OF n, of ?m1] Suc.prems lt
  obtain m' where m': "js_code_outer_loop E ?msg (i + 1) ?m1 = Inr (m', JS_UNDEFINED)"
    and u: "uart m' = uart ?m1 @
          concat (map (\<lambda>k. concat (replicate k ?msg) @ [CHR 0x0A] @ [CHR 0x0A]) [nat (i + 1)..<10])"
    by auto
  have up: "[nat i..<10] = nat i # [nat (i + 1)..<10]"
    using lt Suc.prems(2) by (simp add: upt_conv_Cons nat_add_distrib)
  show ?case
    unfolding step up using m' u by simp
qed

lemma demo_output_bytes:
  "demo_output =
     [CHR 0x0A, CHR 0x0A] @
     ''Hello from JS!'' @ [CHR 0x0A, CHR 0x0A] @
     ''Hello from JS!Hello from JS!'' @ [CHR 0x0A, CHR 0x0A] @
     ''Hello from JS!Hello from JS!Hello from JS!'' @ [CHR 0x0A, CHR 0x0A] @
     ''Hello from JS!Hello from JS!Hello from JS!Hello from JS!'' @ [CHR 0x0A, CHR 0x0A] @
     ''Hello from JS!Hello from JS!Hello from JS!Hello from JS!Hello from JS!'' @ [CHR 0x0A, CHR 0x0A] @
     ''Hello from JS!Hello from JS!Hello from JS!Hello from JS!Hello from JS!Hello from JS!'' @
       [CHR 0x0A, CHR 0x0A] @
     ''Hello from JS!Hello from JS!Hello from JS!Hello from JS!Hello from JS!Hello from JS!Hello from JS!'' @
       [CHR 0x0A, CHR 0x0A] @
     ''Hello from JS!Hello from JS!Hello from JS!Hello from JS!Hello from JS!Hello from JS!Hello from JS!Hello from JS!'' @
       [CHR 0x0A, CHR 0x0A] @
     ''Hello from JS!Hello from JS!Hello from JS!Hello from JS!Hello from JS!Hello from JS!Hello from JS!Hello from JS!Hello from JS!'' @
       [CHR 0x0A, CHR 0x0A] @
     ''Successful JavaScript!'' @ [CHR 0x0A, CHR 0x0A]"
  by (simp add: demo_output_def upt_rec numeral_eq_Suc)

lemma length_js_memory: "length js_memory = 65536"
  by (simp add: js_memory_def JS_MEMORY_SIZE_def)

lemma main_result_line:
  assumes "JS_NewContext E js_memory (length js_memory) = Some c"
    and "JS_Eval E \<lparr>ctx = c, uart = []\<rparr> js_code (length js_code) ''<input>'' 0 = (m, result)"
    and "\<not> JS_IsException result"
    and "JS_ToCString E (ctx m) result = (c1, Some s)"
  shows "main E = (uart m @ ''Result: '' @ s @ [CHR 0x0A], 0)"
  using assms by (simp add: main_def uart_puts_def uart_putc_def)

text \<open>
  The driver on an engine that evaluates the embedded script as \<open>js_code_run\<close> does:
  its output starts with the stream of the script.
\<close>

lemma main_demo_stream:
  assumes conv: "\<And>c s. s \<in> set demo_messages \<Longrightarrow> snd (JS_ToCString E c (JS_String s)) = Some s"
    and new: "JS_NewContext E js_memory (length js_memory) = Some c"
    and ev: "js_code_run E \<lparr>ctx = c, uart = []\<rparr> =
             Inr (JS_Eval E \<lparr>ctx = c, uart = []\<rparr> js_code (length js_code) ''<input>'' 0)"
  shows "\<exists>rest. main E = (demo_output @ rest, 0)"
proof -
  from js_code_outer_loop_stream [OF conv, of 10 0 "\<lparr>ctx = c, uart = []\<rparr>"]
  obtain m1 where m1: "js_code_outer_loop E ''Hello from JS!'' 0 \<lparr>ctx = c, uart = []\<rparr> = Inr (m1, JS_UNDEFINED)"
    and u1: "uart m1 =
      concat (map (\<lambda>k. concat (replicate k ''Hello from JS!'') @ [CHR 0x0A] @ [CHR 0x0A]) [0..<10])"
    by auto
  let ?m2 = "m1\<lparr>ctx := fst (JS_ToCString E (ctx m1) (JS_String (''Successful JavaScript!'' @ [CHR 0x0A]))),
            uart := uart m1 @ (''Successful JavaScript!'' @ [CHR 0x0A]) @ [CHR 0x0A]\<rparr>"
  have pr: "js_print E JS_UNDEFINED 1 [JS_String (''Successful JavaScript!'' @ [CHR 0x0A])] m1 =
     Inr (?m2, JS_UNDEFINED)"
    by (rule js_print_one_string) (rule conv [OF demo_message_last])
  have run: "js_code_run E \<lparr>ctx = c, uart = []\<rparr> = Inr (?m2, JS_UNDEFINED)"
    unfolding js_code_run_def Let_def m1 using pr by (simp add: JS_IsException_def)
  have u2: "uart ?m2 = demo_output" using u1 by (simp add: demo_output_def)
  from ev run have e: "JS_Eval E \<lparr>ctx = c, uart = []\<rparr> js_code (length js_code) ''<input>'' 0 =
     (?m2, JS_UNDEFINED)" by simp
  obtain c1 str where cv: "JS_ToCString E (ctx ?m2) JS_UNDEFINED = (c1, str)"
    by (cases "JS_ToCString E (ctx ?m2) JS_UNDEFINED")
  have "main E = (uart ?m2 @ (case str of Some s \<Rightarrow> ''Result: '' @ s @ [CHR 0x0A] | None \<Rightarrow> []), 0)"
    using cv new e
    by (simp add: main_def JS_IsException_def uart_puts_def uart_putc_def split: option.split)
  then show ?thesis unfolding u2 by blast
qed

subsection \<open>The arena allocator\<close>


text \<open>
  On the arena of \<open>main\<close>, a request for the whole buffer is served at offset 0 and the
  next request, for one byte, is refused.
\<close>

lemma arena_allocs_example:
  "arena_allocs [65536, 1] (arena_create js_memory (length js_memory)) =
     [Block 0 65536, OutOfMemory]"
  by (simp add: arena_create_def arena_alloc_def length_js_memory)

section \<open>The properties of the specification\<close>

text \<open>
  C1, as amended. The exit status of the driver tells only whether the context could be
  created: \<open>main\<close> returns 1 when \<^verbatim>\<open>JS_NewContext\<close> returns NULL and 0 whenever a
  context was created, whether the evaluation ended normally or in an uncaught exception.
\<close>

theorem main_exit_status:
  "snd (main E) = (if JS_NewContext E js_memory (length js_memory) = None then 1 else 0)"
  by (simp add: main_def Let_def split: option.split prod.split)

text \<open>
  C1 as stated fails: on an engine whose evaluation ends in an uncaught exception the
  driver writes the exception to the UART and still returns 0, the status of success.
\<close>

theorem main_exit_status_counterexample:
  "JS_IsException (snd (JS_Eval (ref_engine 5 eval_throws)
       \<lparr>ctx = \<lparr>mem_size = 65536, mem_used = 0, pending = JS_UNDEFINED\<rparr>, uart = []\<rparr>
       js_code (length js_code) ''<input>'' 0)) \<and>
   main (ref_engine 5 eval_throws) =
     (''JS Exception: InternalError: out of memory'' @ [CHR 0x0A], 0)"
  by (simp add: main_def ref_engine_def eval_throws_def JS_IsException_def js_memory_def
      JS_MEMORY_SIZE_def uart_puts_def uart_putc_def puts_if_str_def ref_ToCString_def Let_def)

text \<open>
  C2, as amended. \<open>js_print\<close> releases nothing: for every call that passes \<open>argc\<close>
  existing slots, the context after the call is exactly the context that the conversions
  of its arguments leave, in order. Whatever a conversion allocated in the arena is
  still allocated when the call returns, so the arena grows per call by what the
  conversions of that call allocated.
\<close>

theorem js_print_releases_nothing:
  assumes "0 \<le> argc" and "nat argc \<le> length argv"
  shows "\<exists>m'. js_print E this_val argc argv m = Inr (m', JS_UNDEFINED) \<and>
           ctx m' = fst (to_cstrings E (ctx m) (take (nat argc) argv))"
proof -
  obtain c' strs where cs: "to_cstrings E (ctx m) (take (nat argc) argv) = (c', strs)"
    by (cases "to_cstrings E (ctx m) (take (nat argc) argv)")
  from js_print_eq [OF assms cs] show ?thesis by (simp add: cs)
qed

text \<open>
  On the reference engine, \<^verbatim>\<open>print(undefined)\<close> leaves the ten bytes of the converted
  text allocated.
\<close>

theorem js_print_releases_nothing_witness:
  "\<exists>m'. js_print (ref_engine 5 eval_throws) JS_UNDEFINED 1 [JS_UNDEFINED]
            \<lparr>ctx = \<lparr>mem_size = 65536, mem_used = 0, pending = JS_UNDEFINED\<rparr>, uart = []\<rparr> =
          Inr (m', JS_UNDEFINED) \<and>
        ctx m' = \<lparr>mem_size = 65536, mem_used = 10, pending = JS_UNDEFINED\<rparr>"
proof -
  let ?m = "\<lparr>ctx = \<lparr>mem_size = 65536, mem_used = 0, pending = JS_UNDEFINED\<rparr>, uart = []\<rparr>"
  have a: "(0::int) \<le> 1" and b: "nat 1 \<le> length [JS_UNDEFINED]"
    by simp_all
  have h: "fst (to_cstrings (ref_engine 5 eval_throws) (ctx ?m) (take (nat 1) [JS_UNDEFINED])) =
        \<lparr>mem_size = 65536, mem_used = 10, pending = JS_UNDEFINED\<rparr>"
    by (simp add: ref_engine_def ref_ToCString_def)
  show ?thesis
    using js_print_releases_nothing [OF a b, of "ref_engine 5 eval_throws" JS_UNDEFINED ?m]
    unfolding h .
qed

text \<open>
  C2 as stated fails: on the reference engine, where a conversion that does not fit the
  caller's buffer allocates in the arena, three calls of \<^verbatim>\<open>print(undefined)\<close> from an
  arena with nothing allocated return with thirty bytes allocated, ten per call.
\<close>

theorem js_print_leaks_counterexample:
  "print_undefined_times (ref_engine 5 eval_throws) 3
     \<lparr>ctx = \<lparr>mem_size = 65536, mem_used = 0, pending = JS_UNDEFINED\<rparr>, uart = []\<rparr> =
   Inr \<lparr>ctx = \<lparr>mem_size = 65536, mem_used = 30, pending = JS_UNDEFINED\<rparr>,
        uart = ''undefined'' @ [CHR 0x0A] @ ''undefined'' @ [CHR 0x0A] @ ''undefined'' @ [CHR 0x0A]\<rparr>"
  by (simp add: numeral_3_eq_3 js_print_undefined_ref)

text \<open>
  C3. Running the embedded script writes a fully determined byte stream: for each \<open>i\<close>
  from 0 to 9 the message of \<open>i\<close> repetitions of \<open>Hello from JS!\<close> with its newline,
  followed by the newline that print appends, and then the message
  \<open>Successful JavaScript!\<close> with its newline, followed by the newline that print appends.
  The bytes the run adds to the UART are exactly \<open>demo_output\<close>, and the run ends with
  the value Undefined. The engine is any engine that converts each of the eleven
  messages the script prints, none of which holds a NUL, to its content.
\<close>

theorem demo_script_output:
  assumes "\<And>c s. s \<in> set demo_messages \<Longrightarrow> snd (JS_ToCString E c (JS_String s)) = Some s"
  shows "\<exists>m'. js_code_run E m = Inr (m', JS_UNDEFINED) \<and> uart m' = uart m @ demo_output"
proof -
  from js_code_outer_loop_stream [OF assms, of 10 0 m]
  obtain m1 where m1: "js_code_outer_loop E ''Hello from JS!'' 0 m = Inr (m1, JS_UNDEFINED)"
    and u1: "uart m1 = uart m @
      concat (map (\<lambda>k. concat (replicate k ''Hello from JS!'') @ [CHR 0x0A] @ [CHR 0x0A]) [0..<10])"
    by auto
  have pr: "js_print E JS_UNDEFINED 1 [JS_String (''Successful JavaScript!'' @ [CHR 0x0A])] m1 =
     Inr (m1\<lparr>ctx := fst (JS_ToCString E (ctx m1) (JS_String (''Successful JavaScript!'' @ [CHR 0x0A]))),
            uart := uart m1 @ (''Successful JavaScript!'' @ [CHR 0x0A]) @ [CHR 0x0A]\<rparr>, JS_UNDEFINED)"
    by (rule js_print_one_string) (rule assms [OF demo_message_last])
  show ?thesis
    unfolding js_code_run_def Let_def m1
    using pr u1 by (simp add: JS_IsException_def demo_output_def)
qed

text \<open>
  On the reference engine, whose C strings end at the first NUL, the eleven messages
  convert to their content and, from an empty UART, the stream is the bytes written out
  below.
\<close>

theorem demo_script_output_witness:
  "list_all (\<lambda>s. \<forall>c. snd (JS_ToCString (ref_engine 5 eval_throws) c (JS_String s)) = Some s)
     demo_messages \<and>
   (\<exists>m'. js_code_run (ref_engine 5 eval_throws)
            \<lparr>ctx = \<lparr>mem_size = 65536, mem_used = 0, pending = JS_UNDEFINED\<rparr>, uart = []\<rparr> =
          Inr (m', JS_UNDEFINED) \<and>
        uart m' =
          [CHR 0x0A, CHR 0x0A] @
          ''Hello from JS!'' @ [CHR 0x0A, CHR 0x0A] @
          ''Hello from JS!Hello from JS!'' @ [CHR 0x0A, CHR 0x0A] @
          ''Hello from JS!Hello from JS!Hello from JS!'' @ [CHR 0x0A, CHR 0x0A] @
          ''Hello from JS!Hello from JS!Hello from JS!Hello from JS!'' @ [CHR 0x0A, CHR 0x0A] @
          ''Hello from JS!Hello from JS!Hello from JS!Hello from JS!Hello from JS!'' @
            [CHR 0x0A, CHR 0x0A] @
          ''Hello from JS!Hello from JS!Hello from JS!Hello from JS!Hello from JS!Hello from JS!'' @
            [CHR 0x0A, CHR 0x0A] @
          ''Hello from JS!Hello from JS!Hello from JS!Hello from JS!Hello from JS!Hello from JS!Hello from JS!'' @
            [CHR 0x0A, CHR 0x0A] @
          ''Hello from JS!Hello from JS!Hello from JS!Hello from JS!Hello from JS!Hello from JS!Hello from JS!Hello from JS!'' @
            [CHR 0x0A, CHR 0x0A] @
          ''Hello from JS!Hello from JS!Hello from JS!Hello from JS!Hello from JS!Hello from JS!Hello from JS!Hello from JS!Hello from JS!'' @
            [CHR 0x0A, CHR 0x0A] @
          ''Successful JavaScript!'' @ [CHR 0x0A, CHR 0x0A])"
proof -
  have h: "snd (JS_ToCString (ref_engine 5 eval_throws) c (JS_String s)) = Some s"
    if "s \<in> set demo_messages" for c s
    using ref_ToCString_c_string [OF demo_messages_no_NUL [OF that]]
    by (simp add: ref_engine_def)
  from demo_script_output [of "ref_engine 5 eval_throws"
      "\<lparr>ctx = \<lparr>mem_size = 65536, mem_used = 0, pending = JS_UNDEFINED\<rparr>, uart = []\<rparr>", OF h]
  obtain m' where "js_code_run (ref_engine 5 eval_throws)
            \<lparr>ctx = \<lparr>mem_size = 65536, mem_used = 0, pending = JS_UNDEFINED\<rparr>, uart = []\<rparr> =
          Inr (m', JS_UNDEFINED)" and "uart m' = demo_output"
    by auto
  moreover have "list_all (\<lambda>s. \<forall>c. snd (JS_ToCString (ref_engine 5 eval_throws) c (JS_String s)) = Some s)
     demo_messages"
    using h by (simp add: list_all_iff)
  ultimately show ?thesis
    unfolding demo_output_bytes by blast
qed

text \<open>
  C4. For every call of print whose conversions all succeed, with the strings \<open>strs\<close>,
  the bytes written to the UART are exactly those strings joined by a single space and
  followed by exactly one newline, and the call returns Undefined. (It holds for any
  number of arguments, so in particular for one or more.)
\<close>

theorem js_print_joins_arguments:
  assumes "snd (to_cstrings E (ctx m) argv) = map Some strs"
  shows "js_print E this_val (int (length argv)) argv m =
     Inr (m\<lparr>ctx := fst (to_cstrings E (ctx m) argv),
            uart := uart m @ join_space strs @ [CHR 0x0A]\<rparr>, JS_UNDEFINED)"
proof -
  have "to_cstrings E (ctx m) (take (nat (int (length argv))) argv) =
        (fst (to_cstrings E (ctx m) argv), map Some strs)"
    using assms by (simp add: prod_eq_iff)
  from js_print_eq [OF _ _ this] show ?thesis
    by (simp add: arg_bytes_join)
qed

text \<open>In particular \<^verbatim>\<open>print("a", "b")\<close> writes \<open>a b\<close> and a newline.\<close>

theorem js_print_a_b:
  "js_print (ref_engine 5 eval_throws) JS_UNDEFINED 2 [JS_String ''a'', JS_String ''b'']
     \<lparr>ctx = \<lparr>mem_size = 65536, mem_used = 0, pending = JS_UNDEFINED\<rparr>, uart = []\<rparr> =
   Inr (\<lparr>ctx = \<lparr>mem_size = 65536, mem_used = 0, pending = JS_UNDEFINED\<rparr>,
         uart = ''a b'' @ [CHR 0x0A]\<rparr>, JS_UNDEFINED)"
  using js_print_joins_arguments [of "ref_engine 5 eval_throws"
      "\<lparr>ctx = \<lparr>mem_size = 65536, mem_used = 0, pending = JS_UNDEFINED\<rparr>, uart = []\<rparr>"
      "[JS_String ''a'', JS_String ''b'']" "[''a'', ''b'']" JS_UNDEFINED]
  by (simp add: ref_engine_def ref_ToCString_def)

text \<open>
  C5. Calling print with zero arguments writes exactly one newline byte to the UART and
  nothing else: the context is unchanged and the call returns Undefined.
\<close>

theorem js_print_no_arguments:
  "js_print E this_val 0 argv m = Inr (m\<lparr>uart := uart m @ [CHR 0x0A]\<rparr>, JS_UNDEFINED)"
  by (simp add: js_print_def js_print_loop_done uart_putc_def)

text \<open>
  C6. For every receiver, argument count, argument array and machine state, load returns
  the value tagged as an exception and never a normal value; the call returns (it is
  neither a fault nor the end of the process); the UART is untouched; and the context
  is changed by nothing but the raising of the exception, an InternalError with the
  message \<open>load not implemented\<close>, which is how js.c realises the category the
  specification calls NotSupported.
\<close>

theorem js_load_throws:
  "js_load E this_val argc argv m =
     Inr (m\<lparr>ctx := JS_Throw E (ctx m) JS_CLASS_INTERNAL_ERROR ''load not implemented''\<rparr>,
          JS_EXCEPTION) \<and>
   JS_IsException JS_EXCEPTION"
  by (simp add: js_load_def JS_ThrowInternalError_def JS_IsException_def)

text \<open>
  C7. Every host function, called with any \<open>argc \<ge> 0\<close> and an argument array that
  holds at least \<open>argc\<close> slots, returns without a fault, and its outcome is that of the
  call on the first \<open>argc\<close> slots alone: no slot at index \<open>argc\<close> or beyond is read (on
  an array of exactly \<open>argc\<close> slots such a read would be the fault). For the six
  functions other than print, which takes any number of arguments, the outcome is also
  that of the call in which \<open>k\<close> further arguments are passed as Undefined: missing
  arguments are treated as Undefined.
\<close>

theorem host_functions_read_only_passed_arguments:
  assumes "0 \<le> argc" and "nat argc \<le> length argv"
  shows "\<not> isl (call_host E f this_val argc argv m) \<and>
         call_host E f this_val argc argv m =
           call_host E f this_val argc (take (nat argc) argv) m \<and>
         (f \<noteq> Print \<longrightarrow>
            call_host E f this_val argc argv m =
              call_host E f this_val (argc + int k)
                (take (nat argc) argv @ replicate k JS_UNDEFINED) m)"
proof (cases f)
  case Print
  obtain c' strs where cs: "to_cstrings E (ctx m) (take (nat argc) argv) = (c', strs)"
    by (cases "to_cstrings E (ctx m) (take (nat argc) argv)")
  have cs': "to_cstrings E (ctx m) (take (nat argc) (take (nat argc) argv)) = (c', strs)"
    using cs by simp
  have "nat argc \<le> length (take (nat argc) argv)" using assms by simp
  from js_print_eq [OF assms cs] js_print_eq [OF assms(1) this cs']
  show ?thesis using Print by simp
qed (simp_all add: js_date_now_def js_performance_now_def js_gc_def js_load_def
      js_setTimeout_def js_clearTimeout_def JS_ThrowInternalError_def)

text \<open>
  \<^verbatim>\<open>setTimeout(callback)\<close>, one argument short, returns as
  \<^verbatim>\<open>setTimeout(callback, undefined)\<close> does.
\<close>

theorem host_functions_read_only_passed_arguments_witness:
  "\<not> isl (call_host (ref_engine 5 eval_throws) SetTimeout JS_UNDEFINED 1 [JS_Object 7]
            \<lparr>ctx = \<lparr>mem_size = 65536, mem_used = 0, pending = JS_UNDEFINED\<rparr>, uart = []\<rparr>) \<and>
   call_host (ref_engine 5 eval_throws) SetTimeout JS_UNDEFINED 1 [JS_Object 7]
      \<lparr>ctx = \<lparr>mem_size = 65536, mem_used = 0, pending = JS_UNDEFINED\<rparr>, uart = []\<rparr> =
   call_host (ref_engine 5 eval_throws) SetTimeout JS_UNDEFINED 2 [JS_Object 7, JS_UNDEFINED]
      \<lparr>ctx = \<lparr>mem_size = 65536, mem_used = 0, pending = JS_UNDEFINED\<rparr>, uart = []\<rparr>"
  using host_functions_read_only_passed_arguments [of 1 "[JS_Object 7]" "ref_engine 5 eval_throws"
      SetTimeout JS_UNDEFINED
      "\<lparr>ctx = \<lparr>mem_size = 65536, mem_used = 0, pending = JS_UNDEFINED\<rparr>, uart = []\<rparr>" 1]
  by auto


text \<open>
  C9. Each call of now or performanceNow returns a number, the 32-bit integer 0, and
  leaves the machine as it was; so across any sequence of such calls, whatever the
  receiver, the arguments and the state of the machine at each call, every returned
  timestamp is at most every later one.
\<close>

theorem clock_calls_monotonic:
  "map (\<lambda>(f, this_val, argc, argv, m). call_clock E f this_val argc argv m) calls =
     map (\<lambda>(f, this_val, argc, argv, m). Inr (m, JS_Int 0)) calls \<and>
   sorted_wrt timestamp_le
     (map (\<lambda>(f, this_val, argc, argv, m). call_clock E f this_val argc argv m) calls)"
proof -
  have r: "call_clock E f this_val argc argv m = Inr (m, JS_Int 0)" for f this_val argc argv m
    by (cases f) (simp_all add: js_date_now_def js_performance_now_def JS_NewInt32_def)
  show ?thesis
    by (auto simp: r sorted_wrt_map sorted_wrt_iff_nth_less split: prod.splits)
qed

text \<open>
  C10. In print the space before argument \<open>i \<ge> 1\<close> is written before the conversion
  of that argument is attempted: in the sequence of calls the \<open>Putc\<close> of the space
  stands immediately before the \<open>ToCString\<close> of argument \<open>i\<close>. When that conversion
  fails (NULL), no \<open>Puts\<close> follows it: the next event is the space of the next
  argument, or the final newline. So the bytes written are those of the arguments before
  \<open>i\<close>, the space, nothing for argument \<open>i\<close>, then every later argument after its own
  space, then the newline. The call raises no exception: it returns Undefined, and the
  context is the one the conversions left.
\<close>

theorem js_print_failed_conversion:
  assumes "to_cstrings E (ctx m) argv = (c', strs)"
    and "1 \<le> i" and "i < length argv" and "strs ! i = None"
  shows "js_print_events E this_val (int (length argv)) argv (ctx m) =
           Inr ((c', arg_events False (take i argv) (take i strs) @
                     [Putc (CHR '' ''), ToCString (argv ! i)] @
                     arg_events True (drop (Suc i) argv) (drop (Suc i) strs) @
                     [Putc (CHR 0x0A)]), JS_UNDEFINED) \<and>
         js_print E this_val (int (length argv)) argv m =
           Inr (m\<lparr>ctx := c',
                  uart := uart m @ arg_bytes False (take i strs) @ '' '' @
                          arg_bytes True (drop (Suc i) strs) @ [CHR 0x0A]\<rparr>, JS_UNDEFINED)"
proof -
  have len: "length strs = length argv"
    using length_to_cstrings [of E "ctx m" argv] assms(1) by simp
  have s: "strs = take i strs @ None # drop (Suc i) strs"
    using len assms(3,4) id_take_nth_drop [of i strs] by simp
  have a: "argv = take i argv @ argv ! i # drop (Suc i) argv"
    using assms(3) id_take_nth_drop [of i argv] by simp
  have cs: "to_cstrings E (ctx m) (take (nat (int (length argv))) argv) = (c', strs)"
    using assms(1) by simp
  have "arg_events False argv strs =
        arg_events False (take i argv @ argv ! i # drop (Suc i) argv)
          (take i strs @ None # drop (Suc i) strs)"
    using s a by simp
  also have "\<dots> = arg_events False (take i argv) (take i strs) @
        [Putc (CHR '' ''), ToCString (argv ! i)] @
        arg_events True (drop (Suc i) argv) (drop (Suc i) strs)"
    using assms(2,3) len by (subst arg_events_append) auto
  finally have ev: "arg_events False argv strs =
        arg_events False (take i argv) (take i strs) @
        [Putc (CHR '' ''), ToCString (argv ! i)] @
        arg_events True (drop (Suc i) argv) (drop (Suc i) strs)" .
  have "arg_bytes False strs = arg_bytes False (take i strs @ None # drop (Suc i) strs)"
    using s by simp
  also have "\<dots> = arg_bytes False (take i strs) @ '' '' @ arg_bytes True (drop (Suc i) strs)"
    using assms(2,3) len by (auto simp: arg_bytes_append)
  finally have ab: "arg_bytes False strs =
      arg_bytes False (take i strs) @ '' '' @ arg_bytes True (drop (Suc i) strs)" .
  from js_print_events_eq [OF _ _ cs, of this_val] have 1: "js_print_events E this_val (int (length argv)) argv (ctx m) =
     Inr ((c', arg_events False argv strs @ [Putc (CHR 0x0A)]), JS_UNDEFINED)"
    by simp
  from js_print_eq [OF _ _ cs, of this_val] have 2: "js_print E this_val (int (length argv)) argv m =
     Inr (m\<lparr>ctx := c', uart := uart m @ arg_bytes False strs @ [CHR 0x0A]\<rparr>, JS_UNDEFINED)"
    by simp
  show ?thesis unfolding 1 2 ev ab by simp
qed

text \<open>
  With an arena too small for the text of \<open>undefined\<close>, \<^verbatim>\<open>print("a", undefined, "c")\<close>
  writes \<open>a\<close>, the space, converts \<open>undefined\<close> without success, writes the next space,
  then \<open>c\<close> and the newline.
\<close>

theorem js_print_failed_conversion_witness:
  "js_print_events (ref_engine 5 eval_throws) JS_UNDEFINED 3
     [JS_String ''a'', JS_UNDEFINED, JS_String ''c'']
     \<lparr>mem_size = 8, mem_used = 0, pending = JS_UNDEFINED\<rparr> =
   Inr ((\<lparr>mem_size = 8, mem_used = 0, pending = JS_UNDEFINED\<rparr>,
         [ToCString (JS_String ''a''), Puts ''a'',
          Putc (CHR '' ''), ToCString JS_UNDEFINED,
          Putc (CHR '' ''), ToCString (JS_String ''c''), Puts ''c'',
          Putc (CHR 0x0A)]), JS_UNDEFINED) \<and>
   js_print (ref_engine 5 eval_throws) JS_UNDEFINED 3 [JS_String ''a'', JS_UNDEFINED, JS_String ''c'']
     \<lparr>ctx = \<lparr>mem_size = 8, mem_used = 0, pending = JS_UNDEFINED\<rparr>, uart = []\<rparr> =
   Inr (\<lparr>ctx = \<lparr>mem_size = 8, mem_used = 0, pending = JS_UNDEFINED\<rparr>,
         uart = ''a  c'' @ [CHR 0x0A]\<rparr>, JS_UNDEFINED)"
  using js_print_failed_conversion [of "ref_engine 5 eval_throws"
      "\<lparr>ctx = \<lparr>mem_size = 8, mem_used = 0, pending = JS_UNDEFINED\<rparr>, uart = []\<rparr>"
      "[JS_String ''a'', JS_UNDEFINED, JS_String ''c'']"
      "\<lparr>mem_size = 8, mem_used = 0, pending = JS_UNDEFINED\<rparr>"
      "[Some ''a'', None, Some ''c'']" 1 JS_UNDEFINED]
  by (simp add: ref_engine_def ref_ToCString_def)

end
